theory Spec2Isabelle
  imports Complex_Main
begin

section \<open>Python strings and numbers as the program uses them\<close>

text \<open>
  A Python \<open>str\<close> is modelled as a \<open>string\<close> whose characters are the code points
  below 256. A Python \<open>float\<close> is modelled as an exact rational number: the frame
  arithmetic below is the arithmetic of the source with every operation exact, and the
  values \<open>inf\<close> and \<open>nan\<close> do not occur. Exceptions are values of the type \<open>error\<close>.
\<close>

datatype header =
    Speaker_Name
  | In_point
  | Out_point
  | Transcript
  | Color_select
  | Other_header string

datatype error =
    ValueError
  | ZeroDivisionError
  | AttributeError
  | IndexError
  | AssertionError
  | FileNotFoundError
  | CsvFormatError_no_headers
  | CsvFormatError_missing "header list"

definition is_space :: "char \<Rightarrow> bool" where
  "is_space c = (of_char c \<in> {9, 10, 11, 12, 13, 28, 29, 30, 31, 32, 133, 160 :: nat})"

definition strip :: "string \<Rightarrow> string" where
  "strip s = rev (dropWhile is_space (rev (dropWhile is_space s)))"

definition is_digit :: "char \<Rightarrow> bool" where
  "is_digit c = (48 \<le> (of_char c :: nat) \<and> (of_char c :: nat) \<le> 57)"

definition digit_val :: "char \<Rightarrow> nat" where
  "digit_val c = of_char c - 48"

definition lower_char :: "char \<Rightarrow> char" where
  "lower_char c =
     (let n = (of_char c :: nat)
      in if (65 \<le> n \<and> n \<le> 90) \<or> (192 \<le> n \<and> n \<le> 222 \<and> n \<noteq> 215)
         then char_of (n + 32) else c)"

definition lower :: "string \<Rightarrow> string" where
  "lower s = map lower_char s"

text \<open>
  \<open>str.upper\<close> on the letters the program compares against. Of the code points below
  256 only \<open>g\<close>, \<open>a\<close> and \<open>p\<close> have the upper-case forms \<open>G\<close>, \<open>A\<close> and \<open>P\<close>, so the
  test \<open>s.upper().startswith("GAP")\<close> is decided by the ASCII letters alone.
\<close>

definition upper_char :: "char \<Rightarrow> char" where
  "upper_char c =
     (let n = (of_char c :: nat)
      in if 97 \<le> n \<and> n \<le> 122 then char_of (n - 32) else c)"

definition upper :: "string \<Rightarrow> string" where
  "upper s = map upper_char s"

fun startswith :: "string \<Rightarrow> string \<Rightarrow> bool" where
  "startswith s [] = True"
| "startswith [] (p # ps) = False"
| "startswith (c # cs) (p # ps) = (c = p \<and> startswith cs ps)"

text \<open>\<open>s.split(sep)\<close> for a one-character separator: never an empty list.\<close>

fun split :: "char \<Rightarrow> string \<Rightarrow> string list" where
  "split sep [] = [] # []"
| "split sep (c # cs) =
     (if c = sep then [] # split sep cs
      else (case split sep cs of
              [] \<Rightarrow> [c] # []
            | p # ps \<Rightarrow> (c # p) # ps))"

definition replace_char :: "char \<Rightarrow> char \<Rightarrow> string \<Rightarrow> string" where
  "replace_char a b s = map (\<lambda>c. if c = a then b else c) s"

text \<open>
  \<open>int(s)\<close> for a string: surrounding white space is dropped, one sign is allowed, and
  the digits may be separated by single underscores. Any other text raises ValueError,
  here \<open>None\<close>.
\<close>

fun parse_digits :: "nat \<Rightarrow> string \<Rightarrow> nat option" where
  "parse_digits acc [] = Some acc"
| "parse_digits acc (c # cs) =
     (if is_digit c then parse_digits (10 * acc + digit_val c) cs
      else if c = CHR ''_'' then
        (case cs of
           [] \<Rightarrow> None
         | d # ds \<Rightarrow> if is_digit d then parse_digits acc cs else None)
      else None)"

definition py_nat :: "string \<Rightarrow> nat option" where
  "py_nat s =
     (case s of
        [] \<Rightarrow> None
      | c # cs \<Rightarrow> if is_digit c then parse_digits 0 s else None)"

definition py_int :: "string \<Rightarrow> int option" where
  "py_int s =
     (case strip s of
        [] \<Rightarrow> None
      | c # cs \<Rightarrow>
          if c = CHR ''-'' then map_option (\<lambda>n. - int n) (py_nat cs)
          else if c = CHR ''+'' then map_option int (py_nat cs)
          else map_option int (py_nat (c # cs)))"

text \<open>\<open>round(x)\<close> rounds to the nearest integer, a tie to the even neighbour.\<close>

definition py_round :: "rat \<Rightarrow> int" where
  "py_round x =
     (let f = \<lfloor>x\<rfloor>; d = x - of_int f
      in if d < 1 / 2 then f
         else if 1 / 2 < d then f + 1
         else if even f then f else f + 1)"


section \<open>Timecode conversion (core/timecode.py)\<close>

definition int_fields :: "string list \<Rightarrow> error + int list" where
  "int_fields parts =
     (case those (map py_int parts) of
        None \<Rightarrow> Inl ValueError
      | Some ns \<Rightarrow> Inr ns)"

definition total_frames :: "int \<Rightarrow> int \<Rightarrow> int \<Rightarrow> int \<Rightarrow> rat \<Rightarrow> int" where
  "total_frames hours minutes seconds frames fps =
     py_round (of_int (hours * 3600 + minutes * 60 + seconds) * fps + of_int frames)"

definition timecode_to_frames :: "string \<Rightarrow> rat \<Rightarrow> error + int" where
  "timecode_to_frames timecode fps =
     (if timecode = [] \<or> strip timecode = [] then Inr 0
      else
        let parts = split (CHR '':'') (replace_char (CHR '';'') (CHR '':'') timecode)
        in if length parts = 4 then
             (case int_fields parts of
                Inl e \<Rightarrow> Inl e
              | Inr ns \<Rightarrow> Inr (total_frames (ns ! 0) (ns ! 1) (ns ! 2) (ns ! 3) fps))
           else if length parts = 3 then
             (case int_fields parts of
                Inl e \<Rightarrow> Inl e
              | Inr ns \<Rightarrow> Inr (total_frames 0 (ns ! 0) (ns ! 1) (ns ! 2) fps))
           else if length parts = 2 then
             (case int_fields parts of
                Inl e \<Rightarrow> Inl e
              | Inr ns \<Rightarrow> Inr (total_frames 0 0 (ns ! 0) (ns ! 1) fps))
           else Inr 0)"






section \<open>CSV rows (core/parser.py)\<close>

record csv_row =
  speaker :: string
  in_timecode :: string
  out_timecode :: string
  transcript :: string
  color :: string

text \<open>The property \<open>CsvRow.is_gap\<close>.\<close>

definition csv_row_is_gap :: "csv_row \<Rightarrow> bool" where
  "csv_row_is_gap row =
     (if color row = [] then False else startswith (upper (color row)) ''GAP'')"

section \<open>Segments (core/segment.py)\<close>

record segment =
  kind :: string
  start_frames :: int
  end_frames :: int
  seg_color :: "string option"
  seg_transcript :: "string option"
  raw_rows :: "csv_row list"

definition duration_frames :: "segment \<Rightarrow> int" where
  "duration_frames seg = max 0 (end_frames seg - start_frames seg)"

definition is_gap :: "segment \<Rightarrow> bool" where
  "is_gap seg = (kind seg = ''gap'')"

definition gap_label :: "segment \<Rightarrow> string option" where
  "gap_label seg =
     (if \<not> is_gap seg then None
      else case seg_color seg of
             None \<Rightarrow> None
           | Some c \<Rightarrow>
               if c = [] then None
               else if CHR ''_'' \<in> set c then Some (tl (dropWhile (\<lambda>x. x \<noteq> CHR ''_'') c))
               else Some c)"

text \<open>
  A warning is the fixed message of the source followed by the printed row; the model
  keeps the message kind and the row.
\<close>

datatype warning =
    Gap_row_missing_timecodes csv_row
  | Gap_out_point_le_in_point csv_row
  | Block_row_missing_required_fields csv_row
  | Out_point_le_in_point csv_row

fun warning_row :: "warning \<Rightarrow> csv_row" where
  "warning_row (Gap_row_missing_timecodes r) = r"
| "warning_row (Gap_out_point_le_in_point r) = r"
| "warning_row (Block_row_missing_required_fields r) = r"
| "warning_row (Out_point_le_in_point r) = r"

text \<open>The local variables of the loop of \<open>build_segments\<close>.\<close>

record builder_state =
  segments :: "segment list"
  warnings :: "warning list"
  current_color :: "string option"
  current_block :: "segment option"

definition initial_state :: builder_state where
  "initial_state =
     \<lparr>segments = [], warnings = [], current_color = None, current_block = None\<rparr>"

definition open_block :: "builder_state \<Rightarrow> segment list" where
  "open_block st = (case current_block st of None \<Rightarrow> [] | Some b \<Rightarrow> [b])"

text \<open>Lines 70 to 73: a gap row saves the open block, if there is one.\<close>

definition save_current_block :: "builder_state \<Rightarrow> builder_state" where
  "save_current_block st =
     (case current_block st of
        None \<Rightarrow> st
      | Some b \<Rightarrow>
          st\<lparr>segments := segments st @ [b], current_block := None, current_color := None\<rparr>)"

definition add_warning :: "warning \<Rightarrow> builder_state \<Rightarrow> builder_state" where
  "add_warning w st = st\<lparr>warnings := warnings st @ [w]\<rparr>"

definition gap_segment :: "csv_row \<Rightarrow> int \<Rightarrow> int \<Rightarrow> segment" where
  "gap_segment row start_f end_f =
     \<lparr>kind = ''gap'', start_frames = start_f, end_frames = end_f,
      seg_color = Some (color row), seg_transcript = Some (transcript row),
      raw_rows = [row]\<rparr>"

definition new_block :: "csv_row \<Rightarrow> int \<Rightarrow> int \<Rightarrow> segment" where
  "new_block row in_frames out_frames =
     \<lparr>kind = ''block'', start_frames = in_frames, end_frames = out_frames,
      seg_color = Some (color row), seg_transcript = Some (transcript row),
      raw_rows = [row]\<rparr>"

text \<open>One iteration of the loop, lines 64 to 129. A timecode that raises ends the run.\<close>

definition process_row :: "rat \<Rightarrow> builder_state \<Rightarrow> csv_row \<Rightarrow> error + builder_state" where
  "process_row fps st row =
     (if csv_row_is_gap row then
        (let st1 = save_current_block st
         in if in_timecode row = [] \<or> out_timecode row = [] then
              Inr (add_warning (Gap_row_missing_timecodes row) st1)
            else
              (case timecode_to_frames (in_timecode row) fps of
                 Inl e \<Rightarrow> Inl e
               | Inr start_f \<Rightarrow>
                   (case timecode_to_frames (out_timecode row) fps of
                      Inl e \<Rightarrow> Inl e
                    | Inr end_f \<Rightarrow>
                        if end_f \<le> start_f then
                          Inr (add_warning (Gap_out_point_le_in_point row) st1)
                        else
                          Inr (st1\<lparr>segments :=
                                 segments st1 @ [gap_segment row start_f end_f]\<rparr>))))
      else if in_timecode row = [] \<or> out_timecode row = [] \<or> color row = [] then
        Inr (add_warning (Block_row_missing_required_fields row) st)
      else
        (case timecode_to_frames (in_timecode row) fps of
           Inl e \<Rightarrow> Inl e
         | Inr in_frames \<Rightarrow>
             (case timecode_to_frames (out_timecode row) fps of
                Inl e \<Rightarrow> Inl e
              | Inr out_frames \<Rightarrow>
                  if out_frames \<le> in_frames then
                    Inr (add_warning (Out_point_le_in_point row) st)
                  else if current_color st \<noteq> Some (color row) then
                    Inr (st\<lparr>segments := segments st @ open_block st,
                            current_color := Some (color row),
                            current_block := Some (new_block row in_frames out_frames)\<rparr>)
                  else
                    (case current_block st of
                       None \<Rightarrow> Inl AssertionError
                     | Some b \<Rightarrow>
                         Inr (st\<lparr>current_block :=
                                Some (b\<lparr>end_frames := out_frames,
                                        raw_rows := raw_rows b @ [row]\<rparr>)\<rparr>)))))"

fun run_rows :: "rat \<Rightarrow> builder_state \<Rightarrow> csv_row list \<Rightarrow> error + builder_state" where
  "run_rows fps st [] = Inr st"
| "run_rows fps st (row # rows) =
     (case process_row fps st row of
        Inl e \<Rightarrow> Inl e
      | Inr st' \<Rightarrow> run_rows fps st' rows)"

text \<open>Lines 131 to 135: the last block is appended, and both lists are returned.\<close>

definition finish :: "builder_state \<Rightarrow> segment list \<times> warning list" where
  "finish st = (segments st @ open_block st, warnings st)"

definition build_segments ::
  "csv_row list \<Rightarrow> rat \<Rightarrow> error + (segment list \<times> warning list)" where
  "build_segments rows fps =
     (case run_rows fps initial_state rows of
        Inl e \<Rightarrow> Inl e
      | Inr st \<Rightarrow> Inr (finish st))"

section \<open>Reading the CSV file (core/parser.py)\<close>








section \<open>Colour mapping (writers/premiere.py, writers/davinci.py)\<close>

definition VALID_LABELS :: "string list" where
  "VALID_LABELS =
     [''Violet'', ''Rose'', ''Mango'', ''Yellow'', ''Lavender'', ''Caribbean'',
      ''Tan'', ''Forest'', ''Blue'', ''Purple'', ''Teal'', ''Brown'', ''Gray'',
      ''Iris'', ''Cerulean'', ''Magenta'']"

definition LEGACY_COLOR_MAP :: "(string \<times> string) list" where
  "LEGACY_COLOR_MAP =
     [(''rose'', ''Rose''), (''pink'', ''Rose''), (''cyan'', ''Caribbean''),
      (''blue'', ''Blue''), (''mint'', ''Mango''), (''green'', ''Forest''),
      (''yellow'', ''Yellow''), (''orange'', ''Mango''), (''red'', ''Rose''),
      (''purple'', ''Purple''), (''brown'', ''Brown''), (''gray'', ''Gray''),
      (''lavender'', ''Lavender''), (''tan'', ''Tan''), (''teal'', ''Teal''),
      (''magenta'', ''Magenta''), (''violet'', ''Violet''), (''forest'', ''Forest''),
      (''iris'', ''Iris''), (''cerulean'', ''Cerulean''), (''caribbean'', ''Caribbean''),
      (''mango'', ''Mango'')]"

definition color_to_premiere_label :: "string \<Rightarrow> string" where
  "color_to_premiere_label c =
     (if c = [] \<or> strip c = [] then ''Caribbean''
      else if c \<in> set VALID_LABELS then c
      else (case map_of LEGACY_COLOR_MAP (lower c) of
              None \<Rightarrow> ''Caribbean''
            | Some label \<Rightarrow> label))"

definition DAVINCI_COLORS :: "string list" where
  "DAVINCI_COLORS =
     [''orange'', ''yellow'', ''green'', ''cyan'', ''blue'', ''purple'', ''pink'', ''red'',
      ''maroon'', ''rose'', ''lavender'', ''sand'', ''sepia'', ''mint'', ''olive'',
      ''violet'', ''peach'']"

definition PREMIERE_TO_DAVINCI :: "(string \<times> string) list" where
  "PREMIERE_TO_DAVINCI =
     [(''Violet'', ''violet''), (''Rose'', ''rose''), (''Mango'', ''orange''),
      (''Yellow'', ''yellow''), (''Lavender'', ''lavender''), (''Caribbean'', ''cyan''),
      (''Tan'', ''sand''), (''Forest'', ''green''), (''Blue'', ''blue''),
      (''Purple'', ''purple''), (''Teal'', ''cyan''), (''Brown'', ''sepia''),
      (''Gray'', ''sand''), (''Iris'', ''violet''), (''Cerulean'', ''blue''),
      (''Magenta'', ''pink'')]"

definition COLOR_TO_DAVINCI :: "(string \<times> string) list" where
  "COLOR_TO_DAVINCI =
     [(''violet'', ''violet''), (''rose'', ''rose''), (''pink'', ''pink''),
      (''cyan'', ''cyan''), (''blue'', ''blue''), (''mint'', ''mint''),
      (''green'', ''green''), (''yellow'', ''yellow''), (''orange'', ''orange''),
      (''red'', ''red''), (''purple'', ''purple''), (''brown'', ''sepia''),
      (''gray'', ''sand''), (''lavender'', ''lavender''), (''tan'', ''sand''),
      (''teal'', ''cyan''), (''magenta'', ''pink''), (''forest'', ''green''),
      (''iris'', ''violet''), (''cerulean'', ''blue''), (''caribbean'', ''cyan''),
      (''mango'', ''orange''), (''peach'', ''peach''), (''olive'', ''olive''),
      (''maroon'', ''maroon''), (''sand'', ''sand''), (''sepia'', ''sepia'')]"

definition color_to_davinci :: "string \<Rightarrow> string" where
  "color_to_davinci c =
     (if c = [] \<or> strip c = [] then ''blue''
      else (case map_of PREMIERE_TO_DAVINCI c of
              Some d \<Rightarrow> d
            | None \<Rightarrow>
                (case map_of COLOR_TO_DAVINCI (lower c) of
                   Some d \<Rightarrow> d
                 | None \<Rightarrow> if lower c \<in> set DAVINCI_COLORS then lower c else ''blue'')))"

section \<open>The timeline of the FCPXML writer (writers/davinci.py)\<close>

definition get_fps_from_rate :: "int \<Rightarrow> bool \<Rightarrow> rat" where
  "get_fps_from_rate timebase ntsc =
     (if ntsc then of_int timebase * 1000 / 1001 else of_int timebase)"


record timeline_entry =
  te_start :: int
  te_duration :: int
  te_source_start :: int
  te_color :: "string option"

text \<open>
  Lines 215 to 231: the cursor \<open>timeline_position\<close> walks the segments; the result is
  the list \<open>timeline_positions\<close> and the final cursor, \<open>total_duration\<close>.
\<close>

fun timeline_positions :: "int \<Rightarrow> int \<Rightarrow> segment list \<Rightarrow> timeline_entry list \<times> int" where
  "timeline_positions gap_frames pos [] = ([], pos)"
| "timeline_positions gap_frames pos (seg # segs) =
     (if is_gap seg then timeline_positions gap_frames (pos + duration_frames seg) segs
      else
        (case timeline_positions gap_frames
                (pos + gap_frames + duration_frames seg) segs of
           (entries, total_duration) \<Rightarrow>
             (\<lparr>te_start = pos + gap_frames, te_duration = duration_frames seg,
               te_source_start = start_frames seg, te_color = seg_color seg\<rparr> # entries,
              total_duration)))"







section \<open>The clips of the XMEML writer (writers/premiere.py)\<close>

record media_file =
  mf_name :: string
  mf_file_id :: "string option"
  mf_masterclipid :: "string option"

fun contains :: "string \<Rightarrow> string \<Rightarrow> bool" where
  "contains [] sub = (sub = [])"
| "contains (c # cs) sub = (startswith (c # cs) sub \<or> contains cs sub)"

definition find_media_file ::
  "media_file list \<Rightarrow> string option \<Rightarrow> nat \<Rightarrow> error + media_file" where
  "find_media_file media_files file_name track_idx =
     (case (case file_name of
              None \<Rightarrow> None
            | Some fn \<Rightarrow>
                if fn = [] then None
                else (case find (\<lambda>mf. mf_name mf = fn) media_files of
                        Some mf \<Rightarrow> Some mf
                      | None \<Rightarrow>
                          (case find (\<lambda>mf. lower (mf_name mf) = lower fn) media_files of
                             Some mf \<Rightarrow> Some mf
                           | None \<Rightarrow> find (\<lambda>mf. contains (mf_name mf) fn) media_files))) of
        Some mf \<Rightarrow> Inr mf
      | None \<Rightarrow>
          if media_files = [] then Inl IndexError
          else Inr (media_files ! min track_idx (length media_files - 1)))"

text \<open>
  Reading an attribute of a \<open>Segment\<close> by name: the class declares six fields and
  three properties. Of the names the program reads, any other raises AttributeError.
\<close>

datatype py_value =
    Py_None
  | Py_str string
  | Py_int int
  | Py_bool bool
  | Py_rows "csv_row list"

definition py_optional_str :: "string option \<Rightarrow> py_value" where
  "py_optional_str v = (case v of None \<Rightarrow> Py_None | Some s \<Rightarrow> Py_str s)"

definition segment_getattr :: "segment \<Rightarrow> string \<Rightarrow> error + py_value" where
  "segment_getattr seg attr =
     (if attr = ''kind'' then Inr (Py_str (kind seg))
      else if attr = ''start_frames'' then Inr (Py_int (start_frames seg))
      else if attr = ''end_frames'' then Inr (Py_int (end_frames seg))
      else if attr = ''color'' then Inr (py_optional_str (seg_color seg))
      else if attr = ''transcript'' then Inr (py_optional_str (seg_transcript seg))
      else if attr = ''raw_rows'' then Inr (Py_rows (raw_rows seg))
      else if attr = ''duration_frames'' then Inr (Py_int (duration_frames seg))
      else if attr = ''is_gap'' then Inr (Py_bool (is_gap seg))
      else if attr = ''gap_label'' then Inr (py_optional_str (gap_label seg))
      else Inl AttributeError)"

record clip_item =
  clip_name :: string
  clip_start :: int
  clip_end :: int
  clip_in :: int
  clip_out :: int
  clip_label :: string

text \<open>Lines 388 to 391: the four frame fields of a clip placed at \<open>timeline_position\<close>.\<close>

definition clip_times :: "int \<Rightarrow> segment \<Rightarrow> int \<times> int \<times> int \<times> int" where
  "clip_times timeline_position seg =
     (timeline_position, timeline_position + duration_frames seg,
      start_frames seg, start_frames seg + duration_frames seg)"

text \<open>Lines 367 to 426 for one block segment: the clip, and the cursor after it.\<close>

definition block_clip ::
  "media_file list \<Rightarrow> nat \<Rightarrow> int \<Rightarrow> int \<Rightarrow> segment \<Rightarrow> error + (clip_item \<times> int)" where
  "block_clip media_files track_idx gap_frames timeline_position seg =
     (case segment_getattr seg ''file_name'' of
        Inl e \<Rightarrow> Inl e
      | Inr v \<Rightarrow>
          (case find_media_file media_files
                  (case v of Py_str s \<Rightarrow> Some s | _ \<Rightarrow> None) track_idx of
             Inl e \<Rightarrow> Inl e
           | Inr file_info \<Rightarrow>
               (case clip_times (timeline_position + gap_frames) seg of
                  (t_start, t_end, t_in, t_out) \<Rightarrow>
                    Inr (\<lparr>clip_name = mf_name file_info, clip_start = t_start,
                          clip_end = t_end, clip_in = t_in, clip_out = t_out,
                          clip_label =
                            color_to_premiere_label
                              (case seg_color seg of None \<Rightarrow> [] | Some c \<Rightarrow> c)\<rparr>,
                         timeline_position + gap_frames + duration_frames seg))))"

text \<open>Lines 362 to 429: the clips of one track.\<close>

fun track_clips ::
  "media_file list \<Rightarrow> nat \<Rightarrow> int \<Rightarrow> int \<Rightarrow> segment list \<Rightarrow> error + clip_item list" where
  "track_clips media_files track_idx gap_frames timeline_position [] = Inr []"
| "track_clips media_files track_idx gap_frames timeline_position (seg # segs) =
     (if is_gap seg then
        track_clips media_files track_idx gap_frames
          (timeline_position + duration_frames seg) segs
      else
        (case block_clip media_files track_idx gap_frames timeline_position seg of
           Inl e \<Rightarrow> Inl e
         | Inr (clip, pos) \<Rightarrow>
             (case track_clips media_files track_idx gap_frames pos segs of
                Inl e \<Rightarrow> Inl e
              | Inr clips \<Rightarrow> Inr (clip # clips))))"

section \<open>Concrete inputs used below\<close>

definition inverted_segment :: segment where
  "inverted_segment =
     \<lparr>kind = ''block'', start_frames = 300, end_frames = 150,
      seg_color = Some ''Violet'', seg_transcript = Some ''x'', raw_rows = []\<rparr>"








text \<open>The scenario of the specification: two Violet rows, one Rose row, one GAP row.\<close>

definition scenario_rows :: "csv_row list" where
  "scenario_rows =
     [\<lparr>speaker = ''Ann'', in_timecode = ''00:00:00:00'', out_timecode = ''00:00:05:00'',
       transcript = ''one'', color = ''Violet''\<rparr>,
      \<lparr>speaker = ''Ann'', in_timecode = ''00:00:05:00'', out_timecode = ''00:00:10:00'',
       transcript = ''two'', color = ''Violet''\<rparr>,
      \<lparr>speaker = ''Ann'', in_timecode = ''00:00:10:00'', out_timecode = ''00:00:15:00'',
       transcript = ''three'', color = ''Rose''\<rparr>,
      \<lparr>speaker = ''Ann'', in_timecode = ''00:00:15:00'', out_timecode = ''00:00:20:00'',
       transcript = ''pause'', color = ''GAP_1''\<rparr>]"






text \<open>
  A row passes the checks of \<open>build_segments\<close> when its timecodes and its colour are
  present and its out-point frame lies after its in-point frame. (A gap row has a
  colour by definition.) The frame of a timecode that parses is \<open>frames_of\<close>.
\<close>

definition admitted :: "rat \<Rightarrow> csv_row \<Rightarrow> bool" where
  "admitted fps row =
     (in_timecode row \<noteq> [] \<and> out_timecode row \<noteq> [] \<and> color row \<noteq> []
      \<and> (case timecode_to_frames (in_timecode row) fps of
            Inl e \<Rightarrow> False
          | Inr a \<Rightarrow>
              (case timecode_to_frames (out_timecode row) fps of
                 Inl e \<Rightarrow> False
               | Inr b \<Rightarrow> a < b)))"




text \<open>What holds of every segment that \<open>build_segments\<close> returns.\<close>

definition segment_checked :: "rat \<Rightarrow> segment \<Rightarrow> bool" where
  "segment_checked fps s =
     (raw_rows s \<noteq> []
      \<and> list_all (admitted fps) (raw_rows s)
      \<and> timecode_to_frames (in_timecode (hd (raw_rows s))) fps = Inr (start_frames s)
      \<and> timecode_to_frames (out_timecode (last (raw_rows s))) fps = Inr (end_frames s)
      \<and> (if is_gap s then length (raw_rows s) = 1 else kind s = ''block'')
      \<and> (if length (raw_rows s) = 1 then start_frames s < end_frames s else True))"

definition inverted_rows :: "csv_row list" where
  "inverted_rows =
     [\<lparr>speaker = ''Ann'', in_timecode = ''00:00:10:00'', out_timecode = ''00:00:15:00'',
       transcript = ''later'', color = ''Violet''\<rparr>,
      \<lparr>speaker = ''Ann'', in_timecode = ''00:00:00:00'', out_timecode = ''00:00:05:00'',
       transcript = ''earlier'', color = ''Violet''\<rparr>]"

text \<open>
  The loop keeps \<open>current_color\<close> and \<open>current_block\<close> in step: no colour without an
  open block, and the open block is a block of the current colour.
\<close>

definition in_step :: "builder_state \<Rightarrow> bool" where
  "in_step st =
     (case current_block st of
        None \<Rightarrow> current_color st = None
      | Some b \<Rightarrow> current_color st = seg_color b \<and> kind b = ''block'')"

definition shift :: "segment list \<Rightarrow> warning list \<Rightarrow> builder_state \<Rightarrow> builder_state" where
  "shift p q st = st\<lparr>segments := p @ segments st, warnings := q @ warnings st\<rparr>"

definition seg_rows :: "builder_state \<Rightarrow> csv_row list" where
  "seg_rows st = concat (map raw_rows (segments st @ open_block st))"

definition violet_rows :: "csv_row list" where
  "violet_rows = [scenario_rows ! 0, scenario_rows ! 1]"

definition lower_gap_row :: csv_row where
  "lower_gap_row =
     \<lparr>speaker = ''Ann'', in_timecode = ''00:00:10:00'', out_timecode = ''00:00:12:00'',
      transcript = ''pause'', color = ''gap_1''\<rparr>"

definition violet_again :: "csv_row list" where
  "violet_again =
     [\<lparr>speaker = ''Ann'', in_timecode = ''00:00:12:00'', out_timecode = ''00:00:20:00'',
       transcript = ''four'', color = ''Violet''\<rparr>]"


definition unchecked_row :: csv_row where
  "unchecked_row =
     \<lparr>speaker = ''Bob'', in_timecode = ''00:00:09:00'', out_timecode = ''00:00:09:00'',
      transcript = ''empty'', color = ''Rose''\<rparr>"

definition mixed_rows :: "csv_row list" where
  "mixed_rows = violet_rows @ [unchecked_row, lower_gap_row]"

definition mixed_segments :: "segment list" where
  "mixed_segments =
     [\<lparr>kind = ''block'', start_frames = 0, end_frames = 300,
       seg_color = Some ''Violet'', seg_transcript = Some ''one'',
       raw_rows = violet_rows\<rparr>,
      \<lparr>kind = ''gap'', start_frames = 300, end_frames = 360,
       seg_color = Some ''gap_1'', seg_transcript = Some ''pause'',
       raw_rows = [lower_gap_row]\<rparr>]"



section \<open>Colour mapping is total\<close>

lemma legacy_values_valid:
  "list_all (\<lambda>kv. snd kv \<in> set VALID_LABELS) LEGACY_COLOR_MAP"
  by code_simp

lemma premiere_values_davinci:
  "list_all (\<lambda>kv. snd kv \<in> set DAVINCI_COLORS) PREMIERE_TO_DAVINCI"
  by code_simp

lemma color_values_davinci:
  "list_all (\<lambda>kv. snd kv \<in> set DAVINCI_COLORS) COLOR_TO_DAVINCI"
  by code_simp

lemma map_of_list_all:
  "list_all (\<lambda>kv. snd kv \<in> S) kvs \<Longrightarrow> map_of kvs k = Some v \<Longrightarrow> v \<in> S"
  by (induction kvs) (auto split: if_splits)

lemma caribbean_valid: "''Caribbean'' \<in> set VALID_LABELS"
  by code_simp

lemma blue_davinci: "''blue'' \<in> set DAVINCI_COLORS"
  by code_simp

lemma premiere_label_valid: "color_to_premiere_label c \<in> set VALID_LABELS"
  using caribbean_valid map_of_list_all [OF legacy_values_valid]
  by (auto simp: color_to_premiere_label_def split: option.splits)

lemma davinci_color_valid: "color_to_davinci c \<in> set DAVINCI_COLORS"
  using blue_davinci map_of_list_all [OF premiere_values_davinci]
    map_of_list_all [OF color_values_davinci]
  by (auto simp: color_to_davinci_def split: option.splits)

lemma vocab_sizes:
  "length VALID_LABELS = 16" "distinct VALID_LABELS"
  "length DAVINCI_COLORS = 17" "distinct DAVINCI_COLORS"
  by code_simp+

text \<open>
  C9. For every string, \<open>color_to_premiere_label\<close> returns one of the 16 Premiere
  label names and \<open>color_to_davinci\<close> returns one of the 17 DaVinci colour names.
  Both functions are total and raise nothing: the empty string, white space and an
  unknown word give the default (\<open>Caribbean\<close>, \<open>blue\<close>), which is in the vocabulary.
\<close>

theorem color_mapping_total:
  "color_to_premiere_label c \<in> set VALID_LABELS \<and> length VALID_LABELS = 16
   \<and> distinct VALID_LABELS
   \<and> color_to_davinci c \<in> set DAVINCI_COLORS \<and> length DAVINCI_COLORS = 17
   \<and> distinct DAVINCI_COLORS"
  using premiere_label_valid davinci_color_valid vocab_sizes by blast

section \<open>The duration of a segment\<close>

text \<open>
  C10. \<open>duration_frames\<close> is \<open>max(0, end_frames - start_frames)\<close>, never negative.
  A segment with \<open>end_frames \<le> start_frames\<close> therefore gets a clip of length zero:
  the XMEML clip's end equals its start (and its out-point its in-point), and the
  FCPXML timeline entry has duration 0 and leaves the cursor at the clip's start.
\<close>

theorem duration_frames_clamped:
  "duration_frames seg = max 0 (end_frames seg - start_frames seg)
   \<and> 0 \<le> duration_frames seg
   \<and> (end_frames seg \<le> start_frames seg \<longrightarrow>
        clip_times pos seg = (pos, pos, start_frames seg, start_frames seg)
        \<and> (\<not> is_gap seg \<longrightarrow>
             timeline_positions g pos [seg] =
               ([\<lparr>te_start = pos + g, te_duration = 0,
                  te_source_start = start_frames seg, te_color = seg_color seg\<rparr>],
                pos + g)))"
  by (simp add: duration_frames_def clip_times_def)

theorem duration_frames_clamped_witness:
  "end_frames inverted_segment \<le> start_frames inverted_segment
   \<and> \<not> is_gap inverted_segment
   \<and> duration_frames inverted_segment = 0
   \<and> clip_times 30 inverted_segment = (30, 30, 300, 300)
   \<and> timeline_positions 30 0 [inverted_segment] =
       ([\<lparr>te_start = 30, te_duration = 0, te_source_start = 300,
          te_color = Some ''Violet''\<rparr>], 30)"
proof -
  have inv: "end_frames inverted_segment \<le> start_frames inverted_segment"
    by (simp add: inverted_segment_def)
  have blk: "\<not> is_gap inverted_segment"
    by (simp add: inverted_segment_def is_gap_def)
  from duration_frames_clamped [of inverted_segment 30 30]
    duration_frames_clamped [of inverted_segment 0 30] inv blk
  show ?thesis by (simp add: inverted_segment_def)
qed

section \<open>The media reference of a clip\<close>

text \<open>
  C2. The XMEML writer reads \<open>seg.file_name\<close> for every block segment, but the class
  \<open>Segment\<close> declares no such attribute: the read raises AttributeError, and so does
  the clip of every block segment and every track that holds one.
\<close>

theorem segment_file_name_raises:
  "segment_getattr seg ''file_name'' = Inl AttributeError
   \<and> block_clip media_files track_idx gap_frames pos seg = Inl AttributeError
   \<and> track_clips media_files track_idx gap_frames pos (new_block row a b # segs)
       = Inl AttributeError"
  by (simp add: segment_getattr_def block_clip_def new_block_def is_gap_def)

section \<open>Reading the CSV file\<close>










section \<open>The duration of the FCPXML sequence\<close>









section \<open>Parsing a timecode\<close>


lemma those_nth:
  "those xs = Some ys \<Longrightarrow> i < length xs \<Longrightarrow> xs ! i = Some (ys ! i)"
  by (induction xs arbitrary: ys i) (auto split: option.splits simp: nth_Cons')



lemma int_fields_those:
  "int_fields parts = (case those (map py_int parts) of None \<Rightarrow> Inl ValueError | Some ns \<Rightarrow> Inr ns)"
  by (simp add: int_fields_def)





section \<open>The segment builder\<close>

lemma gap_row_has_color: "csv_row_is_gap row \<Longrightarrow> color row \<noteq> []"
  by (auto simp: csv_row_is_gap_def)

lemma shift_simps [simp]:
  "segments (shift p q st) = p @ segments st"
  "warnings (shift p q st) = q @ warnings st"
  "current_color (shift p q st) = current_color st"
  "current_block (shift p q st) = current_block st"
  "open_block (shift p q st) = open_block st"
  by (simp_all add: shift_def open_block_def)

lemma process_row_shift:
  "process_row fps (shift p q st) row = map_sum id (shift p q) (process_row fps st row)"
  by (simp add: process_row_def Let_def shift_def save_current_block_def add_warning_def
      open_block_def split: sum.splits option.splits)

lemma run_rows_shift:
  "run_rows fps (shift p q st) rows = map_sum id (shift p q) (run_rows fps st rows)"
proof (induction rows arbitrary: st)
  case Nil
  show ?case by simp
next
  case (Cons r rows)
  show ?case
    by (cases "process_row fps st r") (simp_all add: process_row_shift Cons)
qed

lemma run_rows_append:
  "run_rows fps st (xs @ ys) =
     (case run_rows fps st xs of Inl e \<Rightarrow> Inl e | Inr st' \<Rightarrow> run_rows fps st' ys)"
  by (induction xs arbitrary: st) (simp_all split: sum.splits)

lemma finish_shift: "finish (shift p q st) = (p @ fst (finish st), q @ snd (finish st))"
  by (simp add: finish_def)

lemma in_step_initial: "in_step initial_state"
  by (simp add: in_step_def initial_state_def)

lemma process_row_in_step:
  "process_row fps st row = Inr st' \<Longrightarrow> in_step st \<Longrightarrow> in_step st'"
  by (auto simp: process_row_def Let_def in_step_def save_current_block_def add_warning_def
      new_block_def split: if_splits sum.splits option.splits)

lemma run_rows_in_step:
  "run_rows fps st rows = Inr st' \<Longrightarrow> in_step st \<Longrightarrow> in_step st'"
  by (induction rows arbitrary: st) (auto split: sum.splits dest: process_row_in_step)

lemma process_gap_row:
  assumes "csv_row_is_gap row" "in_timecode row \<noteq> []" "out_timecode row \<noteq> []"
    and "timecode_to_frames (in_timecode row) fps = Inr a"
    and "timecode_to_frames (out_timecode row) fps = Inr b" "a < b"
    and "in_step st"
  shows "process_row fps st row =
           Inr (shift (fst (finish st) @ [gap_segment row a b]) (snd (finish st)) initial_state)"
  using assms
  by (simp add: process_row_def Let_def save_current_block_def finish_def open_block_def
      shift_def initial_state_def in_step_def split: option.splits)

text \<open>
  C6. A row whose colour starts with \<open>GAP\<close> in any letter case, with both timecodes
  present and the out-point frame after the in-point frame, first closes and emits the
  open block and then emits a gap segment of its own that holds exactly this row: the
  result for \<open>pre @ row # post\<close> is the result for \<open>pre\<close>, then the gap segment, then the
  result for \<open>post\<close>, so nothing before or after the row is merged with it or across
  it, whatever the colours are.
\<close>

theorem gap_row_standalone:
  assumes "build_segments pre fps = Inr (segs1, warns1)"
    and "build_segments post fps = Inr (segs2, warns2)"
    and "csv_row_is_gap row" and "in_timecode row \<noteq> []" and "out_timecode row \<noteq> []"
    and "timecode_to_frames (in_timecode row) fps = Inr a"
    and "timecode_to_frames (out_timecode row) fps = Inr b" and "a < b"
  shows "build_segments (pre @ row # post) fps =
           Inr (segs1 @
                [\<lparr>kind = ''gap'', start_frames = a, end_frames = b,
                  seg_color = Some (color row), seg_transcript = Some (transcript row),
                  raw_rows = [row]\<rparr>] @ segs2,
                warns1 @ warns2)"
proof -
  from assms(1) obtain st1 where
    st1: "run_rows fps initial_state pre = Inr st1" "finish st1 = (segs1, warns1)"
    by (auto simp: build_segments_def split: sum.splits)
  from assms(2) obtain st2 where
    st2: "run_rows fps initial_state post = Inr st2" "finish st2 = (segs2, warns2)"
    by (auto simp: build_segments_def split: sum.splits)
  have "in_step st1"
    using run_rows_in_step [OF st1(1) in_step_initial] .
  then have step: "process_row fps st1 row =
      Inr (shift (segs1 @ [gap_segment row a b]) warns1 initial_state)"
    using process_gap_row [OF assms(3-8), of st1] st1(2) by simp
  have "run_rows fps initial_state (pre @ row # post) =
      Inr (shift (segs1 @ [gap_segment row a b]) warns1 st2)"
    by (simp add: run_rows_append st1(1) step run_rows_shift st2(1))
  then show ?thesis
    by (simp add: build_segments_def finish_shift st2(2) gap_segment_def)
qed

theorem gap_row_standalone_witness:
  "csv_row_is_gap lower_gap_row
   \<and> build_segments violet_rows 30 =
       Inr ([\<lparr>kind = ''block'', start_frames = 0, end_frames = 300,
              seg_color = Some ''Violet'', seg_transcript = Some ''one'',
              raw_rows = violet_rows\<rparr>], [])
   \<and> build_segments violet_again 30 =
       Inr ([\<lparr>kind = ''block'', start_frames = 360, end_frames = 600,
              seg_color = Some ''Violet'', seg_transcript = Some ''four'',
              raw_rows = violet_again\<rparr>], [])
   \<and> build_segments (violet_rows @ lower_gap_row # violet_again) 30 =
       Inr ([\<lparr>kind = ''block'', start_frames = 0, end_frames = 300,
              seg_color = Some ''Violet'', seg_transcript = Some ''one'',
              raw_rows = violet_rows\<rparr>,
             \<lparr>kind = ''gap'', start_frames = 300, end_frames = 360,
              seg_color = Some ''gap_1'', seg_transcript = Some ''pause'',
              raw_rows = [lower_gap_row]\<rparr>,
             \<lparr>kind = ''block'', start_frames = 360, end_frames = 600,
              seg_color = Some ''Violet'', seg_transcript = Some ''four'',
              raw_rows = violet_again\<rparr>], [])"
proof -
  have g: "csv_row_is_gap lower_gap_row" by code_simp
  have pre: "build_segments violet_rows 30 =
       Inr ([\<lparr>kind = ''block'', start_frames = 0, end_frames = 300,
              seg_color = Some ''Violet'', seg_transcript = Some ''one'',
              raw_rows = violet_rows\<rparr>], [])"
    by code_simp
  have post: "build_segments violet_again 30 =
       Inr ([\<lparr>kind = ''block'', start_frames = 360, end_frames = 600,
              seg_color = Some ''Violet'', seg_transcript = Some ''four'',
              raw_rows = violet_again\<rparr>], [])"
    by code_simp
  have tc: "in_timecode lower_gap_row \<noteq> []" "out_timecode lower_gap_row \<noteq> []"
    "timecode_to_frames (in_timecode lower_gap_row) 30 = Inr 300"
    "timecode_to_frames (out_timecode lower_gap_row) 30 = Inr 360"
    by code_simp+
  have fld: "color lower_gap_row = ''gap_1''" "transcript lower_gap_row = ''pause''"
    by (simp_all add: lower_gap_row_def)
  from gap_row_standalone [OF pre post g tc] g pre post show ?thesis
    by (simp add: fld)
qed








lemma admittedI:
  "in_timecode r \<noteq> [] \<Longrightarrow> out_timecode r \<noteq> [] \<Longrightarrow> color r \<noteq> []
   \<Longrightarrow> timecode_to_frames (in_timecode r) fps = Inr a
   \<Longrightarrow> timecode_to_frames (out_timecode r) fps = Inr b \<Longrightarrow> a < b \<Longrightarrow> admitted fps r"
  by (simp add: admitted_def)

lemma gap_segment_checked:
  assumes "admitted fps r" "timecode_to_frames (in_timecode r) fps = Inr a"
    "timecode_to_frames (out_timecode r) fps = Inr b" "a < b"
  shows "segment_checked fps (gap_segment r a b)"
  using assms by (simp add: segment_checked_def gap_segment_def is_gap_def)

lemma new_block_checked:
  assumes "admitted fps r" "timecode_to_frames (in_timecode r) fps = Inr a"
    "timecode_to_frames (out_timecode r) fps = Inr b" "a < b"
  shows "segment_checked fps (new_block r a b)"
  using assms by (simp add: segment_checked_def new_block_def is_gap_def)

lemma extended_block_checked:
  assumes "segment_checked fps blk" "kind blk = ''block''" "admitted fps r"
    "timecode_to_frames (out_timecode r) fps = Inr b"
  shows "segment_checked fps (blk\<lparr>end_frames := b, raw_rows := raw_rows blk @ [r]\<rparr>)"
  using assms by (simp add: segment_checked_def is_gap_def)

lemma save_current_block_simps:
  "open_block (save_current_block st) = []"
  "segments (save_current_block st) = segments st @ open_block st"
  "warnings (save_current_block st) = warnings st"
  by (simp_all add: save_current_block_def open_block_def split: option.splits)

lemma open_block_update [simp]:
  "open_block (st\<lparr>warnings := w\<rparr>) = open_block st"
  "open_block (st\<lparr>segments := sg\<rparr>) = open_block st"
  by (simp_all add: open_block_def)

lemma process_row_checked:
  assumes "process_row fps st row = Inr st'" and "in_step st"
    and "list_all (segment_checked fps) (segments st @ open_block st)"
  shows "list_all (segment_checked fps) (segments st' @ open_block st')"
proof (cases "csv_row_is_gap row")
  case True
  then have c: "color row \<noteq> []" by (rule gap_row_has_color)
  from assms(1,3) True c show ?thesis
    by (auto simp: process_row_def Let_def add_warning_def save_current_block_simps
        intro!: gap_segment_checked admittedI split: if_splits sum.splits)
next
  case False
  from assms False show ?thesis
    by (auto simp: process_row_def Let_def add_warning_def open_block_def in_step_def
        intro!: new_block_checked extended_block_checked admittedI
        split: if_splits sum.splits option.splits)
qed

lemma process_row_rows:
  assumes "process_row fps st row = Inr st'"
  shows "seg_rows st' = seg_rows st @ (if admitted fps row then [row] else [])
     \<and> map warning_row (warnings st') =
         map warning_row (warnings st) @ (if admitted fps row then [] else [row])"
proof (cases "csv_row_is_gap row")
  case True
  then have c: "color row \<noteq> []" by (rule gap_row_has_color)
  from assms True c show ?thesis
    by (auto simp: process_row_def Let_def add_warning_def seg_rows_def
        save_current_block_simps gap_segment_def admitted_def split: if_splits sum.splits)
next
  case False
  from assms False show ?thesis
    by (auto simp: process_row_def Let_def add_warning_def seg_rows_def open_block_def
        new_block_def admitted_def split: if_splits sum.splits option.splits)
qed

lemma run_rows_checked:
  assumes "run_rows fps st rows = Inr st'" and "in_step st"
    and "list_all (segment_checked fps) (segments st @ open_block st)"
  shows "list_all (segment_checked fps) (segments st' @ open_block st')"
  using assms
proof (induction rows arbitrary: st)
  case Nil
  then show ?case by simp
next
  case (Cons r rows)
  from Cons.prems(1) obtain st1 where
    st1: "process_row fps st r = Inr st1" "run_rows fps st1 rows = Inr st'"
    by (auto split: sum.splits)
  show ?case
    using Cons.IH [OF st1(2) process_row_in_step [OF st1(1) Cons.prems(2)]
        process_row_checked [OF st1(1) Cons.prems(2,3)]] .
qed

lemma run_rows_rows:
  assumes "run_rows fps st rows = Inr st'"
  shows "seg_rows st' = seg_rows st @ filter (admitted fps) rows
     \<and> map warning_row (warnings st') =
         map warning_row (warnings st) @ filter (\<lambda>r. \<not> admitted fps r) rows"
  using assms
proof (induction rows arbitrary: st)
  case Nil
  then show ?case by simp
next
  case (Cons r rows)
  from Cons.prems(1) obtain st1 where
    st1: "process_row fps st r = Inr st1" "run_rows fps st1 rows = Inr st'"
    by (auto split: sum.splits)
  from Cons.IH [OF st1(2)] process_row_rows [OF st1(1)] show ?case by simp
qed

text \<open>
  C1 (as amended). The checks of \<open>build_segments\<close> are made row by row. Every segment
  it returns holds at least one row, each of them with its out-point frame after its
  in-point frame; the segment starts at the in-point frame of its first row and ends at
  the out-point frame of its last row. A gap segment holds exactly one row, and every
  segment built from a single row has \<open>end_frames > start_frames\<close>. Every row that
  fails a check is left out of the segments and recorded in one warning, in input
  order. A block extended over several rows is not checked again.
\<close>

theorem build_segments_rows_checked:
  assumes "build_segments rows fps = Inr (segs, warns)"
  shows "(\<forall>s \<in> set segs.
            raw_rows s \<noteq> []
            \<and> (\<forall>r \<in> set (raw_rows s). admitted fps r)
            \<and> timecode_to_frames (in_timecode (hd (raw_rows s))) fps = Inr (start_frames s)
            \<and> timecode_to_frames (out_timecode (last (raw_rows s))) fps = Inr (end_frames s)
            \<and> (is_gap s \<longrightarrow> length (raw_rows s) = 1)
            \<and> (length (raw_rows s) = 1 \<longrightarrow> start_frames s < end_frames s))
         \<and> concat (map raw_rows segs) = filter (admitted fps) rows
         \<and> map warning_row warns = filter (\<lambda>r. \<not> admitted fps r) rows"
proof -
  from assms obtain st where
    st: "run_rows fps initial_state rows = Inr st" "finish st = (segs, warns)"
    by (auto simp: build_segments_def split: sum.splits)
  have init: "list_all (segment_checked fps)
      (segments initial_state @ open_block initial_state)"
    by (simp add: initial_state_def open_block_def)
  from run_rows_checked [OF st(1) in_step_initial init] st(2)
  have "list_all (segment_checked fps) segs" by (auto simp: finish_def)
  then have a: "\<forall>s \<in> set segs. segment_checked fps s" by (simp add: list_all_iff)
  have b: "seg_rows initial_state = []" "warnings initial_state = []"
    by (simp_all add: seg_rows_def initial_state_def open_block_def)
  have fin: "segs = segments st @ open_block st" "warns = warnings st"
    using st(2) by (simp_all add: finish_def)
  from run_rows_rows [OF st(1)]
  have "seg_rows st = filter (admitted fps) rows"
    "map warning_row (warnings st) = filter (\<lambda>r. \<not> admitted fps r) rows"
    by (simp_all add: b)
  then have c: "concat (map raw_rows segs) = filter (admitted fps) rows"
    "map warning_row warns = filter (\<lambda>r. \<not> admitted fps r) rows"
    unfolding fin seg_rows_def by simp_all
  from a c show ?thesis
    by (auto simp: segment_checked_def list_all_iff split: if_splits)
qed

text \<open>
  The claim as first stated fails for an extended block: a second row of the same
  colour that lies earlier than the first gives a block with \<open>end_frames < start_frames\<close>
  and no warning.
\<close>

theorem extended_block_counterexample:
  "build_segments inverted_rows 30 =
     Inr ([\<lparr>kind = ''block'', start_frames = 300, end_frames = 150,
            seg_color = Some ''Violet'', seg_transcript = Some ''later'',
            raw_rows = inverted_rows\<rparr>], [])"
  by code_simp

theorem build_segments_rows_checked_witness:
  "build_segments mixed_rows 30 = Inr (mixed_segments, [Out_point_le_in_point unchecked_row])
   \<and> is_gap (mixed_segments ! 1)
   \<and> length (raw_rows (mixed_segments ! 1)) = 1
   \<and> start_frames (mixed_segments ! 1) < end_frames (mixed_segments ! 1)
   \<and> timecode_to_frames (in_timecode (hd (raw_rows (mixed_segments ! 0)))) 30
       = Inr (start_frames (mixed_segments ! 0))
   \<and> timecode_to_frames (out_timecode (last (raw_rows (mixed_segments ! 0)))) 30
       = Inr (end_frames (mixed_segments ! 0))
   \<and> concat (map raw_rows mixed_segments) = filter (admitted 30) mixed_rows
   \<and> map warning_row [Out_point_le_in_point unchecked_row]
       = filter (\<lambda>r. \<not> admitted 30 r) mixed_rows"
proof -
  have built: "build_segments mixed_rows 30 =
      Inr (mixed_segments, [Out_point_le_in_point unchecked_row])"
    by code_simp
  have mem: "mixed_segments ! 0 \<in> set mixed_segments" "mixed_segments ! 1 \<in> set mixed_segments"
    by (simp_all add: mixed_segments_def)
  have gap: "is_gap (mixed_segments ! 1)" by code_simp
  from build_segments_rows_checked [OF built] built mem gap show ?thesis by blast
qed

section \<open>Formatting a frame count and parsing it again\<close>







































end
